theory Spec2Isabelle
  imports Complex_Main "HOL-Library.Log_Nat" "HOL-Library.Sublist"
begin

section \<open>Exceptions and text formatting\<close>

text \<open>
  The exceptions that \<^verbatim>\<open>apx/node.py\<close> raises itself or lets escape from the Python
  run time. A function that may raise returns \<open>error + 'a\<close>, with \<open>Inl\<close> for the
  exception.
\<close>

datatype error =
    ValueError
  | NotImplementedError
  | AssertionError
  | AttributeError
  | NameError
  | UnhandledDataType
  | RecursionError

text \<open>
  Python's \<^verbatim>\<open>'%d' % i\<close> and \<^verbatim>\<open>'%02X' % i\<close> on unbounded integers. \<open>digits b n\<close> is the
  numeral of \<open>n\<close> in base \<open>b\<close>, most significant digit first, with the upper-case digits
  that \<^verbatim>\<open>%X\<close> prints.
\<close>

definition digit_char :: "nat \<Rightarrow> char" where
  "digit_char d = ''0123456789ABCDEF'' ! d"

function digits :: "nat \<Rightarrow> nat \<Rightarrow> string" where
  "digits b n = (if b < 2 \<or> n < b then [digit_char n]
                 else digits b (n div b) @ [digit_char (n mod b)])"
  by pat_completeness auto
termination
  by (relation "measure (\<lambda>(b, n). n)") auto

declare digits.simps [simp del]

definition fmt_d :: "int \<Rightarrow> string" where
  "fmt_d i = (if i < 0 then ''-'' @ digits 10 (nat (- i)) else digits 10 (nat i))"

text \<open>
  \<^verbatim>\<open>%02X\<close> pads with zeros on the left to a total width of two characters; the sign
  counts, so a negative number is never padded.
\<close>

definition fmt_02X :: "int \<Rightarrow> string" where
  "fmt_02X i =
     (if i < 0 then ''-'' @ digits 16 (nat (- i))
      else let ds = digits 16 (nat i) in replicate (2 - length ds) CHR ''0'' @ ds)"

section \<open>Signature grammar: integer width classification\<close>

text \<open>
  \<^verbatim>\<open>autosar.datatype.IntegerDataType\<close> is a class of the foreign component model; the code
  reads its attributes \<^verbatim>\<open>minVal\<close> and \<^verbatim>\<open>maxVal\<close>. The signed 8-bit branch of
  \<^verbatim>\<open>_getIntegerTypeCode\<close> (lines 29, 30) reads an attribute spelled \<^verbatim>\<open>minval\<close>
  instead. That is another attribute name in Python, so it is a field of its own here:
  \<open>None\<close> when the object has no attribute of that name, in which case reading it raises
  \<^verbatim>\<open>AttributeError\<close>.
\<close>

record IntegerDataType =
  minVal :: int
  maxVal :: int
  minval :: "int option"

text \<open>
  \<^verbatim>\<open>int(math.ceil(math.log(dataType.maxVal,2)))\<close>. \<^verbatim>\<open>math.log\<close> raises \<^verbatim>\<open>ValueError\<close>
  (math domain error) on an argument that is not positive. The logarithm is taken over
  the reals: \<^const>\<open>ceillog2\<close> \<open>n\<close> is \<open>nat \<lceil>log 2 (real n)\<rceil>\<close> for \<open>n > 0\<close>. The rounding of
  the double-precision quotient \<^verbatim>\<open>log(x)/log(2)\<close> is not modelled; CPython returns the
  exact values \<^verbatim>\<open>8.0\<close>, \<^verbatim>\<open>16.0\<close>, \<^verbatim>\<open>32.0\<close> and \<^verbatim>\<open>64.0\<close> at \<open>2^8\<close>, \<open>2^16\<close>, \<open>2^32\<close> and \<open>2^64\<close>.
  The argument is always an \<^verbatim>\<open>IntegerDataType\<close> here, so the \<^verbatim>\<open>isinstance\<close> test holds.
\<close>

definition calcUIntTypeLen :: "IntegerDataType \<Rightarrow> error + int" where
  "calcUIntTypeLen dataType =
     (if maxVal dataType \<le> 0 then Inl ValueError
      else Inr (int (ceillog2 (nat (maxVal dataType)))))"

definition calcIntTypeLen :: "IntegerDataType \<Rightarrow> error + int" where
  "calcIntTypeLen dataType =
     (if \<bar>maxVal dataType\<bar> \<le> 0 then Inl ValueError
      else Inr (int (ceillog2 (nat \<bar>maxVal dataType\<bar>)) + 1))"

definition ranged :: "string \<Rightarrow> int \<Rightarrow> int \<Rightarrow> string" where
  "ranged code lo hi = code @ ''('' @ fmt_d lo @ '','' @ fmt_d hi @ '')''"

text \<open>
  \<^verbatim>\<open>_getIntegerTypeCode\<close>. The result is \<open>None\<close> where the Python function falls off its
  end (more than 64 bits). Its last \<^verbatim>\<open>else\<close> branch cannot be reached with an integer
  \<^verbatim>\<open>minVal\<close>.
\<close>

definition getIntegerTypeCode :: "IntegerDataType \<Rightarrow> error + string option" where
  "getIntegerTypeCode dataType =
     (if minVal dataType \<ge> 0 then
        (case calcUIntTypeLen dataType of
           Inl e \<Rightarrow> Inl e
         | Inr bits \<Rightarrow>
             if bits \<le> 8 then
               (if minVal dataType > 0 \<or> maxVal dataType < 255
                then Inr (Some (ranged ''C'' (minVal dataType) (maxVal dataType)))
                else Inr (Some ''C''))
             else if bits \<le> 16 then Inr (Some ''S'')
             else if bits \<le> 32 then Inr (Some ''L'')
             else if bits \<le> 64 then Inr (Some ''U'')
             else Inr None)
      else
        (case calcIntTypeLen dataType of
           Inl e \<Rightarrow> Inl e
         | Inr bits \<Rightarrow>
             if bits \<le> 8 then
               (case minval dataType of
                  None \<Rightarrow> Inl AttributeError
                | Some mv \<Rightarrow>
                    if mv > - 128 \<or> maxVal dataType < 127
                    then Inr (Some (ranged ''c'' mv (maxVal dataType)))
                    else Inr (Some ''c''))
             else if bits \<le> 16 then Inr (Some ''s'')
             else if bits \<le> 32 then Inr (Some ''l'')
             else if bits \<le> 64 then Inr (Some ''u'')
             else Inr None))"

section \<open>Initial-value deriver\<close>

text \<open>
  The constant values of the foreign model (\<^verbatim>\<open>autosar.constant\<close>), as far as
  \<^verbatim>\<open>_deriveInitValueFromAutosarConstant\<close> tells them apart. \<open>OtherValue\<close> stands for an
  object of any other class.
\<close>

datatype constant_value =
    IntegerValue int
  | StringValue string
  | RecordValue "constant_value list"
  | ArrayValue "constant_value list"
  | OtherValue

text \<open>\<^verbatim>\<open>sep.join(xs)\<close>\<close>

fun join :: "string \<Rightarrow> string list \<Rightarrow> string" where
  "join sep [] = []"
| "join sep [x] = x"
| "join sep (x # y # ys) = x @ sep @ join sep (y # ys)"

text \<open>
  \<^verbatim>\<open>Node._deriveInitValueFromAutosarConstant\<close>. The list comprehension derives the elements
  from left to right and stops at the first exception (\<open>derive_elements\<close>).
\<close>

fun deriveInitValueFromAutosarConstant :: "constant_value \<Rightarrow> error + string"
  and derive_elements :: "constant_value list \<Rightarrow> error + string list" where
  "deriveInitValueFromAutosarConstant (IntegerValue v) =
     (if v > 255 then Inr (''0x'' @ fmt_02X v) else Inr (fmt_d v))"
| "deriveInitValueFromAutosarConstant (StringValue s) = Inr ([CHR 0x22] @ s @ [CHR 0x22])"
| "deriveInitValueFromAutosarConstant (RecordValue elements) =
     (case derive_elements elements of
        Inl e \<Rightarrow> Inl e
      | Inr tmp \<Rightarrow> Inr (''{'' @ join '','' tmp @ ''}''))"
| "deriveInitValueFromAutosarConstant (ArrayValue elements) =
     (case derive_elements elements of
        Inl e \<Rightarrow> Inl e
      | Inr tmp \<Rightarrow> Inr (''{'' @ join '','' tmp @ ''}''))"
| "deriveInitValueFromAutosarConstant OtherValue = Inl NotImplementedError"
| "derive_elements [] = Inr []"
| "derive_elements (x # xs) =
     (case deriveInitValueFromAutosarConstant x of
        Inl e \<Rightarrow> Inl e
      | Inr s \<Rightarrow>
          (case derive_elements xs of
             Inl e \<Rightarrow> Inl e
           | Inr ss \<Rightarrow> Inr (s # ss)))"

text \<open>
  Reading a numeral back, to say what a decimal or a hexadecimal literal denotes:
  \<open>digit_val\<close> is the position of a character among the sixteen digits, \<open>read_digits b\<close>
  the value of a digit string in base \<open>b\<close>.
\<close>

definition digit_val :: "char \<Rightarrow> nat" where
  "digit_val c = length (takeWhile (\<lambda>x. x \<noteq> c) ''0123456789ABCDEF'')"

definition read_digits :: "nat \<Rightarrow> string \<Rightarrow> nat" where
  "read_digits b s = foldl (\<lambda>a c. a * b + digit_val c) 0 s"

definition read_int :: "nat \<Rightarrow> string \<Rightarrow> int" where
  "read_int b s =
     (case s of
        [] \<Rightarrow> 0
      | c # cs \<Rightarrow> if c = CHR ''-'' then - int (read_digits b cs) else int (read_digits b s))"

section \<open>The foreign component model\<close>

text \<open>
  The \<^verbatim>\<open>autosar\<close> package is not part of this repository. What the node reads from it
  is a workspace in which references are looked up (\<^verbatim>\<open>ws.find\<close>), and objects that it
  tells apart by class with \<^verbatim>\<open>isinstance\<close>. \<open>ws_class\<close> lists the classes that the
  code tests for, with the attributes it reads from each; \<open>OtherObject\<close> is an object of
  any other class. Every object has a \<^verbatim>\<open>name\<close>.
\<close>

datatype compu_element = CompuConstElement string | OtherElement

datatype ws_class =
    BooleanDataType
  | IntegerDataType IntegerDataType
  | ArrayDataType
  | StringDataType int
  | RecordDataType "(string \<times> string) list"
  | SenderReceiverInterface "string list"
  | Constant constant_value
  | ConstantValue constant_value
  | CompuMethodConst "compu_element list"
  | OtherObject

datatype ws_object = WsObject (obj_name: string) (obj_class: ws_class)

text \<open>
  \<open>find\<close> is \<^verbatim>\<open>ws.find(ref)\<close> and \<open>find_DataType\<close> is \<^verbatim>\<open>ws.find(ref, role="DataType")\<close>;
  both return \<open>None\<close> for a reference that does not resolve. A record type lists its
  elements as (name, typeRef); a sender-receiver interface lists the typeRef of each of
  its data elements.
\<close>

record workspace =
  find :: "string \<Rightarrow> ws_object option"
  find_DataType :: "string \<Rightarrow> ws_object option"

datatype comspec = DataElementComSpec "string option" | OtherComSpec

datatype autosar_port_class = AR_RequirePort | AR_ProvidePort | AR_OtherPort

record autosar_port =
  ar_class :: autosar_port_class
  ar_name :: string
  portInterfaceRef :: string
  comspec :: "comspec list"
  rootWS :: "workspace option"

record autosar_swc =
  swc_name :: string
  swc_providePorts :: "autosar_port list"
  swc_requirePorts :: "autosar_port list"

section \<open>The node and its objects\<close>

text \<open>
  A node holds its data types by reference: the same \<^verbatim>\<open>DataType\<close> object is in the
  list \<^verbatim>\<open>dataTypes\<close> and in the dictionary \<^verbatim>\<open>dataTypeMap\<close>, \<^verbatim>\<open>add_type\<close> writes to the
  object its caller holds, and \<^verbatim>\<open>mirror\<close> copies the objects. So the \<^verbatim>\<open>DataType\<close>
  objects live in a store: a list of cells, a reference being the index of a cell, and
  a new object being a cell appended at the end. A cell holds the attributes of the
  object; its \<^verbatim>\<open>DataSignature\<close> is owned by the object alone and is kept as its text.
\<close>

type_synonym ref = nat

record DataType =
  dt_name :: string
  dt_dsg :: string
  dt_attr :: "string option"
  dt_id :: "nat option"

type_synonym store = "DataType list"

text \<open>
  A port object is referenced from one list of one node only (\<^verbatim>\<open>add_require_port\<close> and
  \<^verbatim>\<open>add_provide_port\<close> append the object they are given, \<^verbatim>\<open>mirror\<close> builds new ones),
  so ports are values in the lists. \<open>p_class\<close> is the class of the object,
  \<^verbatim>\<open>apx.RequirePort\<close> or \<^verbatim>\<open>apx.ProvidePort\<close>; a port has no \<^verbatim>\<open>id\<close> until a node assigns one.
\<close>

datatype port_class = Require | Provide

record Port =
  p_class :: port_class
  p_name :: string
  p_dsg :: string
  p_attr :: "string option"
  p_id :: "nat option"

record Node =
  name :: "string option"
  dataTypes :: "ref list"
  requirePorts :: "Port list"
  providePorts :: "Port list"
  dataTypeMap :: "string \<rightharpoonup> ref"

text \<open>\<^verbatim>\<open>Node.__init__\<close>\<close>

definition Node_init :: "string option \<Rightarrow> Node" where
  "Node_init nm =
     \<lparr>name = nm, dataTypes = [], requirePorts = [], providePorts = [], dataTypeMap = Map.empty\<rparr>"

text \<open>
  The classes \<^verbatim>\<open>apx.DataSignature\<close>, \<^verbatim>\<open>apx.RequirePort\<close> and \<^verbatim>\<open>apx.ProvidePort\<close> are
  defined in another file of the package. The methods of theirs that the node calls and
  that can raise are parameters of the model:
  \<^item> \<open>DataSignature\<close>: the constructor \<^verbatim>\<open>apx.DataSignature(text, parent)\<close>, from the text
    that \<^verbatim>\<open>_calcDataSignature\<close> returned (\<open>None\<close> if it returned \<^verbatim>\<open>None\<close>);
  \<^item> \<open>resolve_data_element\<close>: \<^verbatim>\<open>dsg.resolve_data_element(dataTypes)\<close> on the signature of a
    data type, given the objects in the node's type list;
  \<^item> \<open>isReference\<close>: \<^verbatim>\<open>port.dsg.dataElement.isReference\<close>;
  \<^item> \<open>resolve_type\<close>: \<^verbatim>\<open>port.resolve_type(dataTypes)\<close>.
\<close>

record apx_base =
  DataSignature :: "string option \<Rightarrow> error + string"
  resolve_data_element :: "DataType list \<Rightarrow> string \<Rightarrow> error + string"
  isReference :: "Port \<Rightarrow> bool"
  resolve_type :: "DataType list \<Rightarrow> Port \<Rightarrow> error + Port"

text \<open>
  Modelled from the spec: the constructors \<^verbatim>\<open>apx.RequirePort(name, signature, attribute)\<close>
  and \<^verbatim>\<open>apx.ProvidePort(name, signature, attribute)\<close> are missing. A port carries its
  name, its signature and an optional attribute string; its id is assigned by the node.
\<close>

definition RequirePort :: "string \<Rightarrow> string \<Rightarrow> string option \<Rightarrow> Port" where
  "RequirePort nm sig attr = \<lparr>p_class = Require, p_name = nm, p_dsg = sig, p_attr = attr, p_id = None\<rparr>"

definition ProvidePort :: "string \<Rightarrow> string \<Rightarrow> string option \<Rightarrow> Port" where
  "ProvidePort nm sig attr = \<lparr>p_class = Provide, p_name = nm, p_dsg = sig, p_attr = attr, p_id = None\<rparr>"

text \<open>
  Modelled from the spec: \<^verbatim>\<open>RequirePort.mirror\<close> and \<^verbatim>\<open>ProvidePort.mirror\<close> are missing. The
  mirrored port is a new port of the other class with the same name, signature and
  attribute; the id is not carried over. (The classes \<^verbatim>\<open>AutosarRequirePort\<close> and
  \<^verbatim>\<open>AutosarProvidePort\<close> of this file do the same: they build the other class from the
  name and the type and copy \<^verbatim>\<open>attr\<close>.)
\<close>

definition Port_mirror :: "Port \<Rightarrow> Port" where
  "Port_mirror port =
     (case p_class port of
        Require \<Rightarrow> ProvidePort (p_name port) (p_dsg port) (p_attr port)
      | Provide \<Rightarrow> RequirePort (p_name port) (p_dsg port) (p_attr port))"

text \<open>
  Modelled from the spec: \<^verbatim>\<open>str(port)\<close> is missing. A port line is the role marker
  \<^verbatim>\<open>P\<close> or \<^verbatim>\<open>R\<close>, the quoted name, the signature, and the attribute after a colon when
  there is one.
\<close>

definition Port_str :: "Port \<Rightarrow> string" where
  "Port_str port =
     (case p_class port of Require \<Rightarrow> ''R'' | Provide \<Rightarrow> ''P'')
     @ [CHR 0x22] @ p_name port @ [CHR 0x22] @ p_dsg port
     @ (case p_attr port of None \<Rightarrow> [] | Some a \<Rightarrow> '':'' @ a)"

section \<open>Data types built from the foreign model\<close>

text \<open>\<^verbatim>\<open>'%s' % x\<close> for a value that is a string or \<^verbatim>\<open>None\<close>, and for an id.\<close>

definition fmt_s :: "string option \<Rightarrow> string" where
  "fmt_s x = (case x of None \<Rightarrow> ''None'' | Some s \<Rightarrow> s)"

definition fmt_id :: "nat option \<Rightarrow> string" where
  "fmt_id x = (case x of None \<Rightarrow> ''None'' | Some n \<Rightarrow> fmt_d (int n))"

text \<open>\<^verbatim>\<open>elem.name.endswith('_RE')\<close> and \<^verbatim>\<open>elem.name[:-3]\<close>\<close>

definition strip_RE :: "string \<Rightarrow> string" where
  "strip_RE nm =
     (if length nm \<ge> 3 \<and> drop (length nm - 3) nm = ''_RE'' then take (length nm - 3) nm else nm)"

text \<open>
  \<^verbatim>\<open>AutosarDataType._calcDataSignature\<close>. It calls itself on the types of the elements of a
  record type, through references into the workspace, so the depth of the recursion is
  not bounded by the argument: the first parameter is the number of nested calls that
  the interpreter still allows, and \<^verbatim>\<open>RecursionError\<close> is raised when it is used up. The
  array branch reads the name \<^verbatim>\<open>typeData\<close>, which is not defined (\<^verbatim>\<open>NameError\<close>). The code
  writes the stripped element name back into the foreign object, which changes nothing
  for a later call: stripping twice is not modelled.
\<close>

fun calcDataSignature :: "nat \<Rightarrow> workspace \<Rightarrow> ws_class \<Rightarrow> error + string option"
  and record_elements :: "nat \<Rightarrow> workspace \<Rightarrow> (string \<times> string) list \<Rightarrow> string \<Rightarrow> error + string"
  where
  "calcDataSignature 0 ws dataType = Inl RecursionError"
| "calcDataSignature (Suc depth) ws dataType =
     (case dataType of
        BooleanDataType \<Rightarrow> Inr (Some ''C(0,1)'')
      | IntegerDataType d \<Rightarrow> getIntegerTypeCode d
      | ArrayDataType \<Rightarrow> Inl NameError
      | StringDataType len \<Rightarrow> Inr (Some (''a['' @ fmt_d (len + 1) @ '']''))
      | RecordDataType elements \<Rightarrow>
          (case record_elements depth ws elements ''{'' of
             Inl e \<Rightarrow> Inl e
           | Inr result \<Rightarrow> Inr (Some (result @ ''}'')))
      | _ \<Rightarrow> Inl UnhandledDataType)"
| "record_elements depth ws [] result = Inr result"
| "record_elements depth ws ((elem_name, typeRef) # elements) result =
     (case find_DataType ws typeRef of
        None \<Rightarrow> Inl ValueError
      | Some childType \<Rightarrow>
          (case calcDataSignature depth ws (obj_class childType) of
             Inl e \<Rightarrow> Inl e
           | Inr sig \<Rightarrow>
               record_elements depth ws elements
                 (result @ [CHR 0x22] @ strip_RE elem_name @ [CHR 0x22] @ fmt_s sig)))"

text \<open>\<^verbatim>\<open>AutosarDataType._calcAttribute\<close>: the loop over the elements, then the join.\<close>

fun textValues :: "compu_element list \<Rightarrow> error + string list" where
  "textValues [] = Inr []"
| "textValues (CompuConstElement textValue # elements) =
     (case textValues elements of Inl e \<Rightarrow> Inl e | Inr values \<Rightarrow> Inr (textValue # values))"
| "textValues (OtherElement # elements) = Inl AssertionError"

definition calcAttribute :: "ws_object \<Rightarrow> error + string option" where
  "calcAttribute typeSemantics =
     (case obj_class typeSemantics of
        CompuMethodConst elements \<Rightarrow>
          (case textValues elements of
             Inl e \<Rightarrow> Inl e
           | Inr values \<Rightarrow>
               Inr (Some (''VT('' @ join '','' (map (\<lambda>x. [CHR 0x22] @ x @ [CHR 0x22]) values) @ '')'')))
      | _ \<Rightarrow> Inr None)"

text \<open>
  \<^verbatim>\<open>AutosarDataType.__init__\<close>: the new object, with no id yet. \<open>depth\<close> is the recursion
  depth left, \<open>X\<close> the missing classes.
\<close>

definition AutosarDataType ::
  "nat \<Rightarrow> apx_base \<Rightarrow> workspace \<Rightarrow> ws_object \<Rightarrow> error + DataType" where
  "AutosarDataType depth X ws dataType =
     (case calcDataSignature depth ws (obj_class dataType) of
        Inl e \<Rightarrow> Inl e
      | Inr text \<Rightarrow>
          (case DataSignature X text of
             Inl e \<Rightarrow> Inl e
           | Inr sig \<Rightarrow>
               (case find ws (''/DataType/DataTypeSemantics/'' @ obj_name dataType) of
                  None \<Rightarrow>
                    Inr \<lparr>dt_name = obj_name dataType, dt_dsg = sig, dt_attr = None, dt_id = None\<rparr>
                | Some typeSemantics \<Rightarrow>
                    (case calcAttribute typeSemantics of
                       Inl e \<Rightarrow> Inl e
                     | Inr a \<Rightarrow>
                         Inr \<lparr>dt_name = obj_name dataType, dt_dsg = sig, dt_attr = a,
                              dt_id = None\<rparr>))))"

text \<open>\<^verbatim>\<open>AutosarDataType.__str__\<close>\<close>

definition DataType_str :: "DataType \<Rightarrow> string" where
  "DataType_str dataType =
     ''T'' @ [CHR 0x22] @ dt_name dataType @ [CHR 0x22] @ dt_dsg dataType
     @ (case dt_attr dataType of None \<Rightarrow> [] | Some a \<Rightarrow> '':'' @ a)"

section \<open>Node operations\<close>

text \<open>
  A method of the node takes the store and the node and returns both, with what the
  call returned or the exception it raised: the state is returned in either case,
  because a call that raises keeps what it had written before.
\<close>

type_synonym 'a outcome = "(store \<times> Node) \<times> (error + 'a)"

text \<open>
  \<^verbatim>\<open>Node._updateDataType\<close>. The new object is the cell at the end of the store; the
  result is the reference to the object, or \<open>None\<close>.
\<close>

definition updateDataType ::
  "nat \<Rightarrow> apx_base \<Rightarrow> workspace \<Rightarrow> autosar_port \<Rightarrow> store \<Rightarrow> Node \<Rightarrow> ref option outcome" where
  "updateDataType depth X ws port h self =
     (case map_option obj_class (find ws (portInterfaceRef port)) of
        Some (SenderReceiverInterface dataElements) \<Rightarrow>
          if length dataElements = 1 then
            (case find ws (dataElements ! 0) of
               None \<Rightarrow> ((h, self), Inl AssertionError)
             | Some dataType \<Rightarrow>
                 (case dataTypeMap self (obj_name dataType) of
                    None \<Rightarrow>
                      (case AutosarDataType depth X ws dataType of
                         Inl e \<Rightarrow> ((h, self), Inl e)
                       | Inr item \<Rightarrow>
                           ((h @ [item\<lparr>dt_id := Some (length (dataTypes self))\<rparr>],
                             self\<lparr>dataTypeMap := (dataTypeMap self)(obj_name dataType \<mapsto> length h),
                                  dataTypes := dataTypes self @ [length h]\<rparr>),
                            Inr (Some (length h))))
                  | Some item \<Rightarrow> ((h, self), Inr (Some item))))
          else if length dataElements > 1 then ((h, self), Inl NotImplementedError)
          else ((h, self), Inr None)
      | _ \<Rightarrow> ((h, self), Inr None))"

text \<open>\<^verbatim>\<open>Node._calcAttributeFromAutosarPort\<close>\<close>

definition calcAttributeFromAutosarPort :: "workspace \<Rightarrow> autosar_port \<Rightarrow> error + string option" where
  "calcAttributeFromAutosarPort ws port =
     (case comspec port of
        [DataElementComSpec (Some initValueRef)] \<Rightarrow>
          (case find ws initValueRef of
             None \<Rightarrow> Inl ValueError
           | Some initValue \<Rightarrow>
               (case (case obj_class initValue of
                        Constant v \<Rightarrow> deriveInitValueFromAutosarConstant v
                      | ConstantValue v \<Rightarrow> deriveInitValueFromAutosarConstant v
                      | _ \<Rightarrow> Inl NotImplementedError) of
                  Inl e \<Rightarrow> Inl e
                | Inr s \<Rightarrow> Inr (Some (''='' @ s))))
      | _ \<Rightarrow> Inr None)"

text \<open>
  \<^verbatim>\<open>Node.add_require_port\<close> and \<^verbatim>\<open>Node.add_provide_port\<close>. \<^verbatim>\<open>resolve_type\<close> is given the
  objects of the node's type list.
\<close>

definition add_require_port :: "apx_base \<Rightarrow> Port \<Rightarrow> store \<Rightarrow> Node \<Rightarrow> Port outcome" where
  "add_require_port X port h self =
     (let port1 = port\<lparr>p_id := Some (length (requirePorts self))\<rparr> in
      if isReference X port1 then
        (case resolve_type X (map ((!) h) (dataTypes self)) port1 of
           Inl e \<Rightarrow> ((h, self), Inl e)
         | Inr port2 \<Rightarrow> ((h, self\<lparr>requirePorts := requirePorts self @ [port2]\<rparr>), Inr port2))
      else ((h, self\<lparr>requirePorts := requirePorts self @ [port1]\<rparr>), Inr port1))"

definition add_provide_port :: "apx_base \<Rightarrow> Port \<Rightarrow> store \<Rightarrow> Node \<Rightarrow> Port outcome" where
  "add_provide_port X port h self =
     (let port1 = port\<lparr>p_id := Some (length (providePorts self))\<rparr> in
      if isReference X port1 then
        (case resolve_type X (map ((!) h) (dataTypes self)) port1 of
           Inl e \<Rightarrow> ((h, self), Inl e)
         | Inr port2 \<Rightarrow> ((h, self\<lparr>providePorts := providePorts self @ [port2]\<rparr>), Inr port2))
      else ((h, self\<lparr>providePorts := providePorts self @ [port1]\<rparr>), Inr port1))"

text \<open>
  \<^verbatim>\<open>Node.add_autosar_port\<close>. The arguments of the port constructor are evaluated from
  left to right: the type reference \<^verbatim>\<open>"T[%s]" % dataType.id\<close>, then the attribute, which
  may raise.
\<close>

definition add_autosar_port ::
  "nat \<Rightarrow> apx_base \<Rightarrow> autosar_port \<Rightarrow> workspace option \<Rightarrow> store \<Rightarrow> Node \<Rightarrow> Port option outcome" where
  "add_autosar_port depth X port ws h self =
     (case (case ws of None \<Rightarrow> rootWS port | Some w \<Rightarrow> Some w) of
        None \<Rightarrow> ((h, self), Inl AssertionError)
      | Some ws1 \<Rightarrow>
          (case updateDataType depth X ws1 port h self of
             ((h1, self1), Inl e) \<Rightarrow> ((h1, self1), Inl e)
           | ((h1, self1), Inr None) \<Rightarrow> ((h1, self1), Inr None)
           | ((h1, self1), Inr (Some dataType)) \<Rightarrow>
               (let sig = ''T['' @ fmt_id (dt_id (h1 ! dataType)) @ '']'' in
                case ar_class port of
                  AR_RequirePort \<Rightarrow>
                    (case calcAttributeFromAutosarPort ws1 port of
                       Inl e \<Rightarrow> ((h1, self1), Inl e)
                     | Inr attr \<Rightarrow>
                         (case add_require_port X (RequirePort (ar_name port) sig attr) h1 self1 of
                            (st, Inl e) \<Rightarrow> (st, Inl e)
                          | (st, Inr p) \<Rightarrow> (st, Inr (Some p))))
                | AR_ProvidePort \<Rightarrow>
                    (case calcAttributeFromAutosarPort ws1 port of
                       Inl e \<Rightarrow> ((h1, self1), Inl e)
                     | Inr attr \<Rightarrow>
                         (case add_provide_port X (ProvidePort (ar_name port) sig attr) h1 self1 of
                            (st, Inl e) \<Rightarrow> (st, Inl e)
                          | (st, Inr p) \<Rightarrow> (st, Inr (Some p))))
                | AR_OtherPort \<Rightarrow> ((h1, self1), Inl ValueError))))"

text \<open>
  \<^verbatim>\<open>Node.import_autosar_swc\<close>: the name, then the two loops over the ports of the
  component. A loop ends at the first port that raises.
\<close>

fun add_autosar_ports ::
  "nat \<Rightarrow> apx_base \<Rightarrow> workspace option \<Rightarrow> autosar_port list \<Rightarrow> store \<Rightarrow> Node \<Rightarrow> unit outcome" where
  "add_autosar_ports depth X ws [] h self = ((h, self), Inr ())"
| "add_autosar_ports depth X ws (port # ports) h self =
     (case add_autosar_port depth X port ws h self of
        ((h1, self1), Inl e) \<Rightarrow> ((h1, self1), Inl e)
      | ((h1, self1), Inr _) \<Rightarrow> add_autosar_ports depth X ws ports h1 self1)"

definition import_autosar_swc ::
  "nat \<Rightarrow> apx_base \<Rightarrow> autosar_swc \<Rightarrow> workspace option \<Rightarrow> string option \<Rightarrow> store \<Rightarrow> Node
     \<Rightarrow> unit outcome" where
  "import_autosar_swc depth X swc ws nm h self =
     (let self0 = self\<lparr>name := Some (case nm of None \<Rightarrow> swc_name swc | Some n \<Rightarrow> n)\<rparr> in
      case add_autosar_ports depth X ws (swc_providePorts swc) h self0 of
        ((h1, self1), Inl e) \<Rightarrow> ((h1, self1), Inl e)
      | ((h1, self1), Inr _) \<Rightarrow> add_autosar_ports depth X ws (swc_requirePorts swc) h1 self1)"

text \<open>
  \<^verbatim>\<open>Node.add_type\<close>. The argument is a reference to the caller's object. The id is
  written to the object before its signature is resolved, so it stays written if the
  resolution raises.
\<close>

definition add_type :: "apx_base \<Rightarrow> ref \<Rightarrow> store \<Rightarrow> Node \<Rightarrow> ref outcome" where
  "add_type X dataType h self =
     (case dataTypeMap self (dt_name (h ! dataType)) of
        None \<Rightarrow>
          (let h1 = h[dataType := (h ! dataType)\<lparr>dt_id := Some (length (dataTypes self))\<rparr>] in
           case resolve_data_element X (map ((!) h1) (dataTypes self)) (dt_dsg (h1 ! dataType)) of
             Inl e \<Rightarrow> ((h1, self), Inl e)
           | Inr sig \<Rightarrow>
               ((h1[dataType := (h1 ! dataType)\<lparr>dt_dsg := sig\<rparr>],
                 self\<lparr>dataTypeMap := (dataTypeMap self)(dt_name (h ! dataType) \<mapsto> dataType),
                      dataTypes := dataTypes self @ [dataType]\<rparr>),
                Inr dataType))
      | Some _ \<Rightarrow> ((h, self), Inl ValueError))"

text \<open>
  \<^verbatim>\<open>Node.lines\<close> and \<^verbatim>\<open>Node.write\<close> (\<open>Node_write\<close>, since the name is taken).
  \<open>append_lines\<close> is the loop
  \<^verbatim>\<open>for x in xs: lines.append(str(x))\<close>; a file is the list of the lines printed to it.
\<close>

fun append_lines :: "('a \<Rightarrow> string) \<Rightarrow> 'a list \<Rightarrow> string list \<Rightarrow> string list" where
  "append_lines str [] lines = lines"
| "append_lines str (x # xs) lines = append_lines str xs (lines @ [str x])"

definition header :: "Node \<Rightarrow> string" where
  "header self = ''N'' @ [CHR 0x22] @ fmt_s (name self) @ [CHR 0x22]"

definition lines :: "store \<Rightarrow> Node \<Rightarrow> string list" where
  "lines h self =
     (let lines0 = [header self];
          lines1 = append_lines (\<lambda>dataType. DataType_str (h ! dataType)) (dataTypes self) lines0;
          lines2 = append_lines Port_str (providePorts self) lines1
      in append_lines Port_str (requirePorts self) lines2)"

definition Node_write :: "store \<Rightarrow> Node \<Rightarrow> string list \<Rightarrow> string list" where
  "Node_write h self fp =
     (let fp0 = fp @ [header self];
          fp1 = append_lines (\<lambda>dataType. DataType_str (h ! dataType)) (dataTypes self) fp0;
          fp2 = append_lines Port_str (providePorts self) fp1
      in append_lines Port_str (requirePorts self) fp2)"

text \<open>
  \<^verbatim>\<open>copy.deepcopy\<close> of the list of data types: a new list of new objects. The memo of
  \<^verbatim>\<open>deepcopy\<close> maps an object already copied to its copy, so an object that is in the
  list twice is copied once.
\<close>

fun deepcopy_refs ::
  "(ref \<times> ref) list \<Rightarrow> store \<Rightarrow> ref list \<Rightarrow> (ref \<times> ref) list \<times> store \<times> ref list" where
  "deepcopy_refs memo h [] = (memo, h, [])"
| "deepcopy_refs memo h (r # rs) =
     (case map_of memo r of
        Some r' \<Rightarrow>
          (case deepcopy_refs memo h rs of (memo1, h1, rs1) \<Rightarrow> (memo1, h1, r' # rs1))
      | None \<Rightarrow>
          (case deepcopy_refs ((r, length h) # memo) (h @ [h ! r]) rs of
             (memo1, h1, rs1) \<Rightarrow> (memo1, h1, length h # rs1)))"

definition deepcopy :: "store \<Rightarrow> ref list \<Rightarrow> store \<times> ref list" where
  "deepcopy h rs = (case deepcopy_refs [] h rs of (memo, h1, rs1) \<Rightarrow> (h1, rs1))"

text \<open>
  \<^verbatim>\<open>Node.mirror\<close>. The first argument is the optional name. The last loop fills the
  dictionary of the new node from its own (copied) data types.
\<close>

definition mirror :: "string option \<Rightarrow> store \<Rightarrow> Node \<Rightarrow> store \<times> Node" where
  "mirror nm h self =
     (let nm1 = (case nm of None \<Rightarrow> name self | Some n \<Rightarrow> Some n);
          (h1, types) = deepcopy h (dataTypes self);
          mirror0 = (Node_init nm1)
            \<lparr>dataTypes := types,
             requirePorts := map Port_mirror (providePorts self),
             providePorts := map Port_mirror (requirePorts self)\<rparr>
      in (h1, mirror0\<lparr>dataTypeMap :=
                fold (\<lambda>dataType m. m(dt_name (h1 ! dataType) \<mapsto> dataType)) types
                  (dataTypeMap mirror0)\<rparr>))"

section \<open>Invariants and notions used to state the properties\<close>

text \<open>
  The data type registry of a node is well formed in a store when every reference in
  the type list is an object of the store, the object at position \<open>i\<close> has id \<open>i\<close>, the
  dictionary maps the name of every listed object to that object, and the dictionary
  holds nothing else.
\<close>

definition registry_ok :: "store \<Rightarrow> Node \<Rightarrow> bool" where
  "registry_ok h self \<longleftrightarrow>
     (\<forall>i < length (dataTypes self).
        dataTypes self ! i < length h
        \<and> dt_id (h ! (dataTypes self ! i)) = Some i
        \<and> dataTypeMap self (dt_name (h ! (dataTypes self ! i))) = Some (dataTypes self ! i))
     \<and> (\<forall>nm r. dataTypeMap self nm = Some r \<longrightarrow> r \<in> set (dataTypes self) \<and> dt_name (h ! r) = nm)"

text \<open>
  The foreign data type that a port refers to: the type of the single data element of
  its sender-receiver interface, as \<^verbatim>\<open>_updateDataType\<close> looks it up.
\<close>

definition port_dataType :: "workspace \<Rightarrow> autosar_port \<Rightarrow> ws_object option" where
  "port_dataType ws port =
     (case map_option obj_class (find ws (portInterfaceRef port)) of
        Some (SenderReceiverInterface [typeRef]) \<Rightarrow> find ws typeRef
      | _ \<Rightarrow> None)"

section \<open>An example component\<close>

text \<open>
  A workspace with a ranged 8-bit type \<^verbatim>\<open>U8Range\<close>, a signed 32-bit type, three
  sender-receiver interfaces (with one, two and no data element), an interface of
  another kind and a constant; ports on these interfaces; and an instance of the missing
  classes in which a signature is a reference if it starts with \<^verbatim>\<open>T[\<close> and resolving
  always succeeds. They are the concrete inputs at which the theorems are instantiated.
\<close>

definition example_apx :: apx_base where
  "example_apx =
     \<lparr>DataSignature = (\<lambda>text. case text of None \<Rightarrow> Inl ValueError | Some s \<Rightarrow> Inr s),
      resolve_data_element = (\<lambda>dataTypes sig. Inr sig),
      isReference = (\<lambda>port. take 2 (p_dsg port) = ''T[''),
      resolve_type = (\<lambda>dataTypes port. Inr port)\<rparr>"

definition example_ws :: workspace where
  "example_ws =
     \<lparr>find = map_of
        [(''/if/One'', WsObject ''One'' (SenderReceiverInterface [''/dt/U8Range''])),
         (''/if/Two'', WsObject ''Two'' (SenderReceiverInterface [''/dt/U8Range'', ''/dt/S32''])),
         (''/if/Zero'', WsObject ''Zero'' (SenderReceiverInterface [])),
         (''/if/Other'', WsObject ''Other'' OtherObject),
         (''/dt/U8Range'',
            WsObject ''U8Range'' (IntegerDataType \<lparr>minVal = 0, maxVal = 10, minval = None\<rparr>)),
         (''/dt/S32'',
            WsObject ''S32''
              (IntegerDataType \<lparr>minVal = - 2147483648, maxVal = 2147483647, minval = None\<rparr>)),
         (''/const/Three'', WsObject ''Three'' (Constant (IntegerValue 3)))],
      find_DataType = (\<lambda>ref. None)\<rparr>"

definition example_port :: "autosar_port_class \<Rightarrow> string \<Rightarrow> string \<Rightarrow> autosar_port" where
  "example_port cls nm interface =
     \<lparr>ar_class = cls, ar_name = nm, portInterfaceRef = interface,
      comspec = [DataElementComSpec (Some ''/const/Three'')], rootWS = Some example_ws\<rparr>"

definition example_type :: DataType where
  "example_type = \<lparr>dt_name = ''U8Range'', dt_dsg = ''C(0,10)'', dt_attr = None, dt_id = Some 0\<rparr>"

definition example_node :: Node where
  "example_node =
     \<lparr>name = Some ''Example'', dataTypes = [0],
      requirePorts = [(RequirePort ''In'' ''T[0]'' (Some ''=3''))\<lparr>p_id := Some 0\<rparr>],
      providePorts = [(ProvidePort ''Out'' ''l'' None)\<lparr>p_id := Some 0\<rparr>],
      dataTypeMap = [''U8Range'' \<mapsto> 0]\<rparr>"

text \<open>Importing a require port and a provide port of the same type into an empty node.\<close>

definition example_import :: "unit outcome" where
  "example_import =
     add_autosar_ports 5 example_apx None
       [example_port AR_RequirePort ''In'' ''/if/One'',
        example_port AR_ProvidePort ''Out'' ''/if/One'']
       [] (Node_init None)"

section \<open>Properties of the integer width classification\<close>







text \<open>
  Claim C2. The full signed 8-bit range \<open>[-128,127]\<close> has width \<open>\<lceil>log\<^sub>2 127\<rceil> + 1 = 8\<close> and
  should give the bare \<^verbatim>\<open>c\<close>. In the 8-bit branch the code reads the attribute
  \<^verbatim>\<open>minval\<close>, which an integer type that declares \<^verbatim>\<open>minVal\<close> and \<^verbatim>\<open>maxVal\<close> does not
  have, and raises \<^verbatim>\<open>AttributeError\<close> instead of returning a type code.
\<close>

theorem getIntegerTypeCode_sint8_raises:
  "calcIntTypeLen \<lparr>minVal = - 128, maxVal = 127, minval = None\<rparr> = Inr 8
   \<and> getIntegerTypeCode \<lparr>minVal = - 128, maxVal = 127, minval = None\<rparr> = Inl AttributeError"
  by code_simp

section \<open>Properties of the initial-value deriver\<close>

lemma digit_val_digit_char: "d < 16 \<Longrightarrow> digit_val (digit_char d) = d"
proof -
  assume "d < 16"
  then have "d = 0 \<or> d = 1 \<or> d = 2 \<or> d = 3 \<or> d = 4 \<or> d = 5 \<or> d = 6 \<or> d = 7 \<or> d = 8
    \<or> d = 9 \<or> d = 10 \<or> d = 11 \<or> d = 12 \<or> d = 13 \<or> d = 14 \<or> d = 15"
    by arith
  then show ?thesis
    by (elim disjE) (simp_all add: digit_val_def digit_char_def)
qed

lemma digit_char_in: "d < 16 \<Longrightarrow> digit_char d \<in> set ''0123456789ABCDEF''"
  by (simp add: digit_char_def del: set_simps)

lemma read_digits_snoc: "read_digits b (s @ [c]) = read_digits b s * b + digit_val c"
  by (simp add: read_digits_def)

lemma read_digits_digits: "2 \<le> b \<Longrightarrow> b \<le> 16 \<Longrightarrow> read_digits b (digits b n) = n"
proof (induction b n rule: digits.induct)
  case (1 b n)
  show ?case
  proof (cases "n < b")
    case True
    with 1 show ?thesis
      by (subst digits.simps) (simp add: read_digits_def digit_val_digit_char)
  next
    case False
    with 1 have "read_digits b (digits b (n div b)) = n div b" by simp
    moreover have "n mod b < 16" using 1(2,3) by (meson mod_less_divisor order_less_le_trans pos2 less_le_trans)
    ultimately show ?thesis using False 1(2)
      by (subst digits.simps) (simp add: read_digits_snoc digit_val_digit_char)
  qed
qed

lemma digits_chars: "2 \<le> b \<Longrightarrow> set (digits b n) \<subseteq> digit_char ` {..<b}"
proof (induction b n rule: digits.induct)
  case (1 b n)
  show ?case
  proof (cases "n < b")
    case True
    then show ?thesis by (subst digits.simps) auto
  next
    case False
    with 1 have "set (digits b (n div b)) \<subseteq> digit_char ` {..<b}" by simp
    moreover have "n mod b < b" using 1(2) by simp
    ultimately show ?thesis using False 1(2)
      by (subst digits.simps) auto
  qed
qed

lemma digits_nonempty: "digits b n \<noteq> []"
  by (subst digits.simps) simp

lemma digits_length_ge: "2 \<le> b \<Longrightarrow> b ^ k \<le> n \<Longrightarrow> k < length (digits b n)"
proof (induction k arbitrary: n)
  case 0
  then show ?case using digits_nonempty[of b n] by (simp add: length_greater_0_conv)
next
  case (Suc k)
  then have "b ^ k \<le> n div b"
    by (metis less_eq_div_iff_mult_less_eq mult.commute power_Suc pos2 less_le_trans)
  with Suc have "k < length (digits b (n div b))" by simp
  moreover have "\<not> n < b" using Suc.prems
    by (metis One_nat_def Suc_1 le_trans less_eq_Suc_le not_less power_Suc self_le_power   zero_less_Suc order_less_le_trans linorder_not_le  power_increasing_iff  nat_less_le one_le_numeral power_one_right)
  ultimately show ?case using Suc.prems(1)
    by (subst digits.simps) simp
qed


lemma digit_char_not_minus: "d < 16 \<Longrightarrow> digit_char d \<noteq> CHR ''-''"
proof -
  assume "d < 16"
  then have "d = 0 \<or> d = 1 \<or> d = 2 \<or> d = 3 \<or> d = 4 \<or> d = 5 \<or> d = 6 \<or> d = 7 \<or> d = 8
    \<or> d = 9 \<or> d = 10 \<or> d = 11 \<or> d = 12 \<or> d = 13 \<or> d = 14 \<or> d = 15"
    by arith
  then show ?thesis
    by (elim disjE) (simp_all add: digit_char_def)
qed

lemma digits_no_minus: "2 \<le> b \<Longrightarrow> b \<le> 16 \<Longrightarrow> CHR ''-'' \<notin> set (digits b n)"
proof
  assume b: "2 \<le> b" "b \<le> 16" and "CHR ''-'' \<in> set (digits b n)"
  with digits_chars [of b n] obtain d where "d < b" "digit_char d = CHR ''-''"
    by auto
  with b digit_char_not_minus [of d] show False by simp
qed

lemma read_int_fmt_d: "read_int 10 (fmt_d v) = v"
proof (cases "v < 0")
  case True
  then show ?thesis
    by (simp add: fmt_d_def read_int_def read_digits_digits)
next
  case False
  obtain c cs where cs: "digits 10 (nat v) = c # cs"
    using digits_nonempty [of 10 "nat v"] by (cases "digits 10 (nat v)") auto
  have "c \<noteq> CHR ''-''"
    using digits_no_minus [of 10 "nat v"] cs by auto
  moreover have "read_digits 10 (c # cs) = nat v"
    using read_digits_digits [of 10 "nat v"] cs by simp
  ultimately show ?thesis
    using False cs by (simp add: fmt_d_def read_int_def)
qed

lemma digits_hex_chars: "set (digits 16 n) \<subseteq> set ''0123456789ABCDEF''"
proof -
  have "digit_char ` {..<16} \<subseteq> set ''0123456789ABCDEF''"
    using digit_char_in by auto
  with digits_chars [of 16 n] show ?thesis by simp
qed

lemma fmt_02X_wide: "255 < v \<Longrightarrow> fmt_02X v = digits 16 (nat v) \<and> 2 < length (digits 16 (nat v))"
proof -
  assume v: "255 < v"
  then have "(16::nat) ^ 2 \<le> nat v" by simp
  then have "2 < length (digits 16 (nat v))"
    by (intro digits_length_ge) simp_all
  then show ?thesis using v by (simp add: fmt_02X_def Let_def)
qed

text \<open>
  Claim C3, as amended. For an integer constant \<open>v \<le> 255\<close> the deriver returns the
  decimal literal of \<open>v\<close> (reading it back in base 10 gives \<open>v\<close>). For \<open>v > 255\<close> it returns
  \<^verbatim>\<open>0x\<close> followed by at least two upper-case hexadecimal digits that denote \<open>v\<close>. It maps
  255 to \<^verbatim>\<open>255\<close> and 256 to \<^verbatim>\<open>0x100\<close>: the padding to two digits adds no zero to a
  number of three hexadecimal digits.
\<close>

theorem derive_IntegerValue:
  "(v \<le> 255 \<longrightarrow>
      deriveInitValueFromAutosarConstant (IntegerValue v) = Inr (fmt_d v) \<and>
      read_int 10 (fmt_d v) = v)
   \<and> (255 < v \<longrightarrow>
      (\<exists>ds. deriveInitValueFromAutosarConstant (IntegerValue v) = Inr (''0x'' @ ds) \<and>
         2 \<le> length ds \<and> set ds \<subseteq> set ''0123456789ABCDEF'' \<and> int (read_digits 16 ds) = v))
   \<and> deriveInitValueFromAutosarConstant (IntegerValue 255) = Inr ''255''
   \<and> deriveInitValueFromAutosarConstant (IntegerValue 256) = Inr ''0x100''"
proof (intro conjI impI)
  assume "v \<le> 255"
  then show "deriveInitValueFromAutosarConstant (IntegerValue v) = Inr (fmt_d v)" by simp
next
  show "read_int 10 (fmt_d v) = v" by (rule read_int_fmt_d)
next
  assume v: "255 < v"
  have "int (read_digits 16 (digits 16 (nat v))) = v"
    using v by (simp add: read_digits_digits)
  with v fmt_02X_wide [OF v] digits_hex_chars [of "nat v"]
  show "\<exists>ds. deriveInitValueFromAutosarConstant (IntegerValue v) = Inr (''0x'' @ ds) \<and>
         2 \<le> length ds \<and> set ds \<subseteq> set ''0123456789ABCDEF'' \<and> int (read_digits 16 ds) = v"
    by (intro exI [of _ "digits 16 (nat v)"]) simp
next
  show "deriveInitValueFromAutosarConstant (IntegerValue 255) = Inr ''255''" by code_simp
next
  show "deriveInitValueFromAutosarConstant (IntegerValue 256) = Inr ''0x100''" by code_simp
qed

text \<open>
  The theorem at 4660 (above 255) and at 7.
\<close>

theorem derive_IntegerValue_witness:
  "(4660::int) > 255 \<and> deriveInitValueFromAutosarConstant (IntegerValue 4660) = Inr ''0x1234''
   \<and> (7::int) \<le> 255 \<and> deriveInitValueFromAutosarConstant (IntegerValue 7) = Inr ''7''"
proof -
  have a: "deriveInitValueFromAutosarConstant (IntegerValue 7) = Inr (fmt_d 7)"
    using derive_IntegerValue [of 7] by simp
  have b: "\<exists>ds. deriveInitValueFromAutosarConstant (IntegerValue 4660) = Inr (''0x'' @ ds)"
    using derive_IntegerValue [of 4660] by auto
  have "fmt_d 7 = ''7''" by code_simp
  moreover have "deriveInitValueFromAutosarConstant (IntegerValue 4660) = Inr ''0x1234''" by code_simp
  ultimately show ?thesis using a b by simp
qed

text \<open>
  Claim C3 as stated fails at 256: the result is not \<^verbatim>\<open>0x0100\<close>.
\<close>

theorem derive_256_counterexample:
  "deriveInitValueFromAutosarConstant (IntegerValue 256) \<noteq> Inr ''0x0100''"
  by code_simp

section \<open>Properties of the data type registry\<close>

lemma AutosarDataType_name:
  "AutosarDataType depth X ws dataType = Inr item \<Longrightarrow> dt_name item = obj_name dataType"
  by (auto simp: AutosarDataType_def split: sum.splits option.splits)

lemma port_dataType_Some:
  assumes "port_dataType ws port = Some dataType"
  obtains n typeRef where
    "find ws (portInterfaceRef port) = Some (WsObject n (SenderReceiverInterface [typeRef]))"
    "find ws typeRef = Some dataType"
proof -
  from assms obtain obj where f: "find ws (portInterfaceRef port) = Some obj"
    by (cases "find ws (portInterfaceRef port)") (auto simp: port_dataType_def)
  obtain n c where obj: "obj = WsObject n c" by (cases obj)
  from assms f obj obtain es where c: "c = SenderReceiverInterface es"
    by (cases c) (auto simp: port_dataType_def)
  from assms f obj c obtain typeRef where es: "es = [typeRef]"
    by (cases es; cases "tl es") (auto simp: port_dataType_def)
  from assms f obj c es have "find ws typeRef = Some dataType"
    by (simp add: port_dataType_def)
  with f obj c es that show ?thesis by blast
qed

lemma updateDataType_existing:
  assumes "port_dataType ws port = Some dataType"
    and "dataTypeMap self (obj_name dataType) = Some r"
  shows "updateDataType depth X ws port h self = ((h, self), Inr (Some r))"
proof -
  from assms(1) obtain n typeRef where
    "find ws (portInterfaceRef port) = Some (WsObject n (SenderReceiverInterface [typeRef]))"
    "find ws typeRef = Some dataType"
    by (rule port_dataType_Some)
  with assms(2) show ?thesis by (simp add: updateDataType_def)
qed

lemma updateDataType_first:
  assumes "port_dataType ws port = Some dataType"
    and "dataTypeMap self (obj_name dataType) = None"
  shows "updateDataType depth X ws port h self =
     (case AutosarDataType depth X ws dataType of
        Inl e \<Rightarrow> ((h, self), Inl e)
      | Inr item \<Rightarrow>
          ((h @ [item\<lparr>dt_id := Some (length (dataTypes self))\<rparr>],
            self\<lparr>dataTypeMap := (dataTypeMap self)(obj_name dataType \<mapsto> length h),
                 dataTypes := dataTypes self @ [length h]\<rparr>),
           Inr (Some (length h))))"
proof -
  from assms(1) obtain n typeRef where
    "find ws (portInterfaceRef port) = Some (WsObject n (SenderReceiverInterface [typeRef]))"
    "find ws typeRef = Some dataType"
    by (rule port_dataType_Some)
  with assms(2) show ?thesis by (simp add: updateDataType_def)
qed

lemma updateDataType_cases:
  assumes "updateDataType depth X ws port h self = ((h', self'), res)"
  shows "(h' = h \<and> self' = self)
       \<or> (\<exists>dataType item. port_dataType ws port = Some dataType
             \<and> dataTypeMap self (obj_name dataType) = None
             \<and> AutosarDataType depth X ws dataType = Inr item
             \<and> h' = h @ [item\<lparr>dt_id := Some (length (dataTypes self))\<rparr>]
             \<and> self' = self\<lparr>dataTypeMap := (dataTypeMap self)(obj_name dataType \<mapsto> length h),
                 dataTypes := dataTypes self @ [length h]\<rparr>
             \<and> res = Inr (Some (length h)))"
proof (cases "port_dataType ws port")
  case None
  then have "updateDataType depth X ws port h self = ((h, self), snd (updateDataType depth X ws port h self))"
    by (auto simp: updateDataType_def port_dataType_def split: option.splits ws_class.splits list.splits) 
  with assms show ?thesis by simp
next
  case (Some dataType)
  show ?thesis
  proof (cases "dataTypeMap self (obj_name dataType)")
    case None
    from updateDataType_first [OF Some None, of depth X h] assms Some None
    show ?thesis by (auto split: sum.splits)
  next
    case (Some r)
    from updateDataType_existing [OF \<open>port_dataType ws port = Some dataType\<close> Some, of depth X h] assms
    show ?thesis by simp
  qed
qed

lemma registry_ok_new:
  assumes ok: "registry_ok h self"
    and fresh: "dataTypeMap self nm = None"
    and nm: "dt_name item = nm"
    and id: "dt_id item = Some (length (dataTypes self))"
  shows "registry_ok (h @ [item])
           (self\<lparr>dataTypeMap := (dataTypeMap self)(nm \<mapsto> length h),
                dataTypes := dataTypes self @ [length h]\<rparr>)"
proof -
  let ?ts = "dataTypes self" and ?m = "dataTypeMap self"
  from ok have lt: "\<And>i. i < length ?ts \<Longrightarrow> ?ts ! i < length h"
    and ids: "\<And>i. i < length ?ts \<Longrightarrow> dt_id (h ! (?ts ! i)) = Some i"
    and names: "\<And>i. i < length ?ts \<Longrightarrow> ?m (dt_name (h ! (?ts ! i))) = Some (?ts ! i)"
    and dom: "\<And>n r. ?m n = Some r \<Longrightarrow> r \<in> set ?ts \<and> dt_name (h ! r) = n"
    by (auto simp: registry_ok_def)
  have old: "(h @ [item]) ! (?ts ! i) = h ! (?ts ! i)" if "i < length ?ts" for i
    using lt [OF that] by (simp add: nth_append)
  have other: "dt_name (h ! (?ts ! i)) \<noteq> nm" if "i < length ?ts" for i
    using names [OF that] fresh by auto
  have part1: "(?ts @ [length h]) ! i < length (h @ [item])
      \<and> dt_id ((h @ [item]) ! ((?ts @ [length h]) ! i)) = Some i
      \<and> (?m(nm \<mapsto> length h)) (dt_name ((h @ [item]) ! ((?ts @ [length h]) ! i)))
          = Some ((?ts @ [length h]) ! i)"
    if "i < length (?ts @ [length h])" for i
  proof (cases "i < length ?ts")
    case True
    with lt [OF True] ids [OF True] names [OF True] old [OF True] other [OF True]
    show ?thesis by (simp add: nth_append)
  next
    case False
    with that have "i = length ?ts" by simp
    with nm id show ?thesis by (simp add: nth_append)
  qed
  have part2: "r \<in> set (?ts @ [length h]) \<and> dt_name ((h @ [item]) ! r) = n"
    if "(?m(nm \<mapsto> length h)) n = Some r" for n r
  proof (cases "n = nm")
    case True
    with that nm show ?thesis by (auto simp: nth_append)
  next
    case False
    with that have m: "?m n = Some r" by simp
    from dom [OF m] obtain i where "i < length ?ts" "?ts ! i = r"
      by (auto simp: in_set_conv_nth)
    with dom [OF m] old [of i] show ?thesis by auto
  qed
  show ?thesis
    unfolding registry_ok_def using part1 part2 by simp
qed

lemma registry_ok_ports [simp]:
  "registry_ok h (self\<lparr>requirePorts := rs\<rparr>) = registry_ok h self"
  "registry_ok h (self\<lparr>providePorts := ps\<rparr>) = registry_ok h self"
  "registry_ok h (self\<lparr>name := n\<rparr>) = registry_ok h self"
  by (simp_all add: registry_ok_def)

lemma updateDataType_registry:
  assumes "registry_ok h self"
    and "updateDataType depth X ws port h self = ((h', self'), res)"
  shows "registry_ok h' self' \<and> prefix h h' \<and> prefix (dataTypes self) (dataTypes self')
     \<and> requirePorts self' = requirePorts self \<and> providePorts self' = providePorts self
     \<and> name self' = name self"
  using updateDataType_cases [OF assms(2)]
proof (elim disjE exE conjE)
  assume "h' = h" "self' = self"
  with assms(1) show ?thesis by simp
next
  fix dataType item
  assume a: "dataTypeMap self (obj_name dataType) = None"
    "AutosarDataType depth X ws dataType = Inr item"
    "h' = h @ [item\<lparr>dt_id := Some (length (dataTypes self))\<rparr>]"
    "self' = self\<lparr>dataTypeMap := (dataTypeMap self)(obj_name dataType \<mapsto> length h),
                 dataTypes := dataTypes self @ [length h]\<rparr>"
  have "registry_ok h' self'"
    unfolding a(3,4) using assms(1) a(1) AutosarDataType_name [OF a(2)]
    by (intro registry_ok_new) simp_all
  with a(3,4) show ?thesis by simp
qed

lemma add_require_port_frame:
  assumes "add_require_port X port h self = ((h', self'), res)"
  shows "h' = h \<and> dataTypes self' = dataTypes self \<and> dataTypeMap self' = dataTypeMap self
     \<and> registry_ok h' self' = registry_ok h self"
  using assms by (auto simp: add_require_port_def Let_def split: if_splits sum.splits)

lemma add_provide_port_frame:
  assumes "add_provide_port X port h self = ((h', self'), res)"
  shows "h' = h \<and> dataTypes self' = dataTypes self \<and> dataTypeMap self' = dataTypeMap self
     \<and> registry_ok h' self' = registry_ok h self"
  using assms by (auto simp: add_provide_port_def Let_def split: if_splits sum.splits)

lemma add_autosar_port_registry:
  assumes ok: "registry_ok h self"
    and run: "add_autosar_port depth X port ws h self = ((h', self'), res)"
  shows "registry_ok h' self' \<and> prefix h h' \<and> prefix (dataTypes self) (dataTypes self')"
proof (cases "case ws of None \<Rightarrow> rootWS port | Some w \<Rightarrow> Some w")
  case None
  with run ok show ?thesis by (simp add: add_autosar_port_def)
next
  case (Some ws1)
  obtain h1 self1 r1 where u: "updateDataType depth X ws1 port h self = ((h1, self1), r1)"
    by (metis surj_pair)
  note reg = updateDataType_registry [OF ok u]
  show ?thesis
  proof (cases r1)
    case (Inl e)
    with run Some u reg show ?thesis by (simp add: add_autosar_port_def)
  next
    case (Inr ro)
    show ?thesis
    proof (cases ro)
      case None
      with run Some u reg Inr show ?thesis by (simp add: add_autosar_port_def)
    next
      case (Some dataType)
      let ?sig = "''T['' @ fmt_id (dt_id (h1 ! dataType)) @ '']''"
      show ?thesis
      proof (cases "calcAttributeFromAutosarPort ws1 port")
        case (Inl e)
        with run \<open>_ = Some ws1\<close> u reg Inr Some show ?thesis
          by (cases "ar_class port") (simp_all add: add_autosar_port_def Let_def)
      next
        case attr: (Inr attr)
        show ?thesis
        proof (cases "ar_class port")
          case AR_RequirePort
          obtain h2 self2 r2 where
            a: "add_require_port X (RequirePort (ar_name port) ?sig attr) h1 self1 = ((h2, self2), r2)"
            by (metis surj_pair)
          from run \<open>_ = Some ws1\<close> u Inr Some attr AR_RequirePort a
          have "h' = h2" "self' = self2"
            by (auto simp: add_autosar_port_def Let_def split: sum.splits)
          with add_require_port_frame [OF a] reg show ?thesis by auto
        next
          case AR_ProvidePort
          obtain h2 self2 r2 where
            a: "add_provide_port X (ProvidePort (ar_name port) ?sig attr) h1 self1 = ((h2, self2), r2)"
            by (metis surj_pair)
          from run \<open>_ = Some ws1\<close> u Inr Some attr AR_ProvidePort a
          have "h' = h2" "self' = self2"
            by (auto simp: add_autosar_port_def Let_def split: sum.splits)
          with add_provide_port_frame [OF a] reg show ?thesis by auto
        next
          case AR_OtherPort
          with run \<open>_ = Some ws1\<close> u reg Inr Some show ?thesis
            by (simp add: add_autosar_port_def Let_def)
        qed
      qed
    qed
  qed
qed

lemma add_autosar_ports_registry:
  assumes "registry_ok h self"
    and "add_autosar_ports depth X ws ports h self = ((h', self'), res)"
  shows "registry_ok h' self' \<and> prefix h h' \<and> prefix (dataTypes self) (dataTypes self')"
  using assms
proof (induction ports arbitrary: h self)
  case Nil
  then show ?case by simp
next
  case (Cons port ports)
  obtain h1 self1 r1 where a: "add_autosar_port depth X port ws h self = ((h1, self1), r1)"
    by (metis surj_pair)
  note reg = add_autosar_port_registry [OF Cons.prems(1) a]
  show ?case
  proof (cases r1)
    case (Inl e)
    with Cons.prems(2) a reg show ?thesis by simp
  next
    case (Inr p)
    with Cons.prems(2) a have "add_autosar_ports depth X ws ports h1 self1 = ((h', self'), res)"
      by simp
    with Cons.IH [of h1 self1] reg show ?thesis
      by (meson prefix_order.order_trans)
  qed
qed

lemma import_autosar_swc_registry:
  assumes "registry_ok h self"
    and "import_autosar_swc depth X swc ws nm h self = ((h', self'), res)"
  shows "registry_ok h' self' \<and> prefix h h' \<and> prefix (dataTypes self) (dataTypes self')"
proof -
  let ?self0 = "self\<lparr>name := Some (case nm of None \<Rightarrow> swc_name swc | Some n \<Rightarrow> n)\<rparr>"
  have ok0: "registry_ok h ?self0" using assms(1) by simp
  obtain h1 self1 r1 where
    a: "add_autosar_ports depth X ws (swc_providePorts swc) h ?self0 = ((h1, self1), r1)"
    by (metis surj_pair)
  note reg = add_autosar_ports_registry [OF ok0 a]
  show ?thesis
  proof (cases r1)
    case (Inl e)
    with assms(2) a reg show ?thesis by (simp add: import_autosar_swc_def Let_def)
  next
    case (Inr u)
    with assms(2) a
    have "add_autosar_ports depth X ws (swc_requirePorts swc) h1 self1 = ((h', self'), res)"
      by (simp add: import_autosar_swc_def Let_def)
    from add_autosar_ports_registry [OF _ this] reg show ?thesis
      by (auto intro: prefix_order.order_trans)
  qed
qed

lemma updateDataType_mapped:
  assumes "port_dataType ws port = Some dataType"
    and "updateDataType depth X ws port h self = ((h1, self1), Inr (Some r))"
  shows "dataTypeMap self1 (obj_name dataType) = Some r"
proof (cases "dataTypeMap self (obj_name dataType)")
  case None
  from updateDataType_first [OF assms(1) None, of depth X h] assms(2)
  show ?thesis by (auto split: sum.splits)
next
  case (Some r')
  from updateDataType_existing [OF assms(1) Some, of depth X h] assms(2)
  show ?thesis using Some by simp
qed

lemma registry_ok_fresh: "registry_ok h self \<Longrightarrow> length h \<notin> set (dataTypes self)"
  by (auto simp: registry_ok_def in_set_conv_nth)

lemma registry_grows:
  assumes ok: "registry_ok h self" and ok': "registry_ok h' self'"
    and ph: "prefix h h'" and pt: "prefix (dataTypes self) (dataTypes self')"
  shows "(\<forall>i < length (dataTypes self'). dt_id (h' ! (dataTypes self' ! i)) = Some i)
     \<and> (\<forall>i < length (dataTypes self).
          dataTypes self' ! i = dataTypes self ! i
          \<and> h' ! (dataTypes self ! i) = h ! (dataTypes self ! i))"
proof -
  from ph obtain hs where h': "h' = h @ hs" by (auto simp: prefix_def)
  from pt obtain ts where t': "dataTypes self' = dataTypes self @ ts" by (auto simp: prefix_def)
  have "dataTypes self ! i < length h" if "i < length (dataTypes self)" for i
    using ok that by (simp add: registry_ok_def)
  then show ?thesis
    using ok' by (auto simp: registry_ok_def h' t' nth_append)
qed

text \<open>
  Claim C4. When the type that a port refers to is already registered under its name,
  \<^verbatim>\<open>_updateDataType\<close> returns the object that the dictionary holds and changes neither
  the store nor the node. When the name is new and the data type can be built, the new
  object gets the current number of types as its id, is appended to the type list and
  is entered in the dictionary under its name; it is an object that was not in the list.
  A second registration of a type of the same name, through whatever port, returns the
  object of the first one and changes nothing. So after any import into a node with a
  well-formed registry (an empty node has one), whether it ends normally or raises, the
  registry is well formed again: the object at position \<open>i\<close> of the type list has id
  \<open>i\<close>, and the types that were there before are at the same positions and unchanged.
\<close>

theorem import_registry:
  assumes "registry_ok h self"
  shows "(port_dataType ws port = Some dataType \<longrightarrow>
          dataTypeMap self (obj_name dataType) = Some r \<longrightarrow>
            updateDataType depth X ws port h self = ((h, self), Inr (Some r)))
     \<and> (port_dataType ws port = Some dataType \<longrightarrow>
          dataTypeMap self (obj_name dataType) = None \<longrightarrow>
          AutosarDataType depth X ws dataType = Inr item \<longrightarrow>
            updateDataType depth X ws port h self =
              ((h @ [item\<lparr>dt_id := Some (length (dataTypes self))\<rparr>],
                self\<lparr>dataTypeMap := (dataTypeMap self)(obj_name dataType \<mapsto> length h),
                     dataTypes := dataTypes self @ [length h]\<rparr>),
               Inr (Some (length h)))
            \<and> length h \<notin> set (dataTypes self))
     \<and> (port_dataType ws port = Some dataType \<longrightarrow>
          updateDataType depth X ws port h self = ((h1, self1), Inr (Some r1)) \<longrightarrow>
          port_dataType ws2 port2 = Some dataType2 \<longrightarrow>
          obj_name dataType2 = obj_name dataType \<longrightarrow>
            updateDataType depth2 X2 ws2 port2 h1 self1 = ((h1, self1), Inr (Some r1)))
     \<and> (import_autosar_swc depth X swc wso nm h self = ((h', self'), res) \<or>
        add_autosar_ports depth X wso ports h self = ((h', self'), res) \<longrightarrow>
          registry_ok h' self'
          \<and> (\<forall>i < length (dataTypes self'). dt_id (h' ! (dataTypes self' ! i)) = Some i)
          \<and> (\<forall>i < length (dataTypes self).
               dataTypes self' ! i = dataTypes self ! i
               \<and> h' ! (dataTypes self ! i) = h ! (dataTypes self ! i)))"
proof (intro conjI impI)
  assume "port_dataType ws port = Some dataType" "dataTypeMap self (obj_name dataType) = Some r"
  then show "updateDataType depth X ws port h self = ((h, self), Inr (Some r))"
    by (rule updateDataType_existing)
next
  assume "port_dataType ws port = Some dataType" "dataTypeMap self (obj_name dataType) = None"
    "AutosarDataType depth X ws dataType = Inr item"
  then show "updateDataType depth X ws port h self =
      ((h @ [item\<lparr>dt_id := Some (length (dataTypes self))\<rparr>],
        self\<lparr>dataTypeMap := (dataTypeMap self)(obj_name dataType \<mapsto> length h),
             dataTypes := dataTypes self @ [length h]\<rparr>),
       Inr (Some (length h)))"
    by (simp add: updateDataType_first)
next
  show "length h \<notin> set (dataTypes self)"
    using assms by (rule registry_ok_fresh)
next
  assume a: "port_dataType ws port = Some dataType"
    "updateDataType depth X ws port h self = ((h1, self1), Inr (Some r1))"
    "port_dataType ws2 port2 = Some dataType2" "obj_name dataType2 = obj_name dataType"
  from updateDataType_mapped [OF a(1,2)] a(4)
  have "dataTypeMap self1 (obj_name dataType2) = Some r1" by simp
  with a(3) show "updateDataType depth2 X2 ws2 port2 h1 self1 = ((h1, self1), Inr (Some r1))"
    by (rule updateDataType_existing)
next
  assume "import_autosar_swc depth X swc wso nm h self = ((h', self'), res) \<or>
        add_autosar_ports depth X wso ports h self = ((h', self'), res)"
  then have reg: "registry_ok h' self' \<and> prefix h h' \<and> prefix (dataTypes self) (dataTypes self')"
    using import_autosar_swc_registry [OF assms] add_autosar_ports_registry [OF assms] by blast
  then show "registry_ok h' self'" by simp
  from reg registry_grows [OF assms, of h' self']
  show "\<forall>i < length (dataTypes self'). dt_id (h' ! (dataTypes self' ! i)) = Some i"
    and "\<forall>i < length (dataTypes self).
               dataTypes self' ! i = dataTypes self ! i
               \<and> h' ! (dataTypes self ! i) = h ! (dataTypes self ! i)"
    by simp_all
qed

text \<open>
  The theorem at the empty node, into which a require port and a provide port of the
  same type are imported: one type is registered, with id 0.
\<close>

theorem import_registry_witness:
  "registry_ok [] (Node_init None)
   \<and> registry_ok (fst (fst example_import)) (snd (fst example_import))
   \<and> fst (fst example_import) = [example_type]
   \<and> dataTypes (snd (fst example_import)) = [0]
   \<and> dataTypeMap (snd (fst example_import)) ''U8Range'' = Some 0"
proof -
  have ok: "registry_ok [] (Node_init None)"
    by (simp add: registry_ok_def Node_init_def)
  have run: "add_autosar_ports 5 example_apx None
       [example_port AR_RequirePort ''In'' ''/if/One'',
        example_port AR_ProvidePort ''Out'' ''/if/One'']
       [] (Node_init None)
     = ((fst (fst example_import), snd (fst example_import)), snd example_import)"
    by (simp add: example_import_def)
  have "registry_ok (fst (fst example_import)) (snd (fst example_import))"
    using import_registry [OF ok, where depth = 5 and X = example_apx and wso = None
        and h' = "fst (fst example_import)" and self' = "snd (fst example_import)"
        and res = "snd example_import"] run
    by blast
  moreover have "fst (fst example_import) = [example_type]"
    unfolding example_import_def by code_simp
  moreover have "dataTypes (snd (fst example_import)) = [0]"
    unfolding example_import_def by code_simp
  moreover have "dataTypeMap (snd (fst example_import)) ''U8Range'' = Some 0"
    unfolding example_import_def by code_simp
  ultimately show ?thesis using ok by simp
qed

text \<open>
  Claim C5. \<^verbatim>\<open>add_type\<close> on a data type whose name is in the dictionary raises
  \<^verbatim>\<open>ValueError\<close> and leaves the store and the node as they were. On a new name, when
  the references of the signature resolve, it returns the object, whose id is now the
  number of types that the node had; the object is appended to the type list and
  entered in the dictionary under its name, and nothing else changes.
\<close>

theorem add_type_duplicate_or_fresh:
  "(dataTypeMap self (dt_name (h ! dataType)) \<noteq> None \<longrightarrow>
      add_type X dataType h self = ((h, self), Inl ValueError))
   \<and> (dataTypeMap self (dt_name (h ! dataType)) = None \<longrightarrow> dataType < length h \<longrightarrow>
        resolve_data_element X (map ((!) (h[dataType := (h ! dataType)\<lparr>dt_id := Some (length (dataTypes self))\<rparr>])) (dataTypes self))
           (dt_dsg (h ! dataType)) = Inr sig \<longrightarrow>
      (\<exists>h' self'. add_type X dataType h self = ((h', self'), Inr dataType)
         \<and> dt_id (h' ! dataType) = Some (length (dataTypes self))
         \<and> dt_name (h' ! dataType) = dt_name (h ! dataType)
         \<and> dt_dsg (h' ! dataType) = sig
         \<and> dt_attr (h' ! dataType) = dt_attr (h ! dataType)
         \<and> length h' = length h \<and> (\<forall>r. r \<noteq> dataType \<longrightarrow> h' ! r = h ! r)
         \<and> dataTypes self' = dataTypes self @ [dataType]
         \<and> dataTypeMap self' = (dataTypeMap self)(dt_name (h ! dataType) \<mapsto> dataType)
         \<and> requirePorts self' = requirePorts self \<and> providePorts self' = providePorts self
         \<and> name self' = name self))"
  by (auto simp: add_type_def Let_def)

text \<open>
  The theorem at the example node, to which a second object named \<^verbatim>\<open>U8Range\<close> is
  appended, and at the empty node.
\<close>

theorem add_type_witness:
  "add_type example_apx 1 [example_type, example_type] example_node
     = (([example_type, example_type], example_node), Inl ValueError)
   \<and> (\<exists>h' self'. add_type example_apx 0 [example_type] (Node_init None) = ((h', self'), Inr 0)
         \<and> dt_id (h' ! 0) = Some 0 \<and> dataTypes self' = [0])"
proof -
  have dup: "dataTypeMap example_node (dt_name ([example_type, example_type] ! 1)) \<noteq> None"
    by (simp add: example_node_def example_type_def)
  have fresh: "dataTypeMap (Node_init None) (dt_name ([example_type] ! 0)) = None"
    "(0::nat) < length [example_type]"
    "resolve_data_element example_apx
       (map ((!) ([example_type][0 := ([example_type] ! 0)\<lparr>dt_id := Some (length (dataTypes (Node_init None)))\<rparr>]))
          (dataTypes (Node_init None)))
       (dt_dsg ([example_type] ! 0)) = Inr ''C(0,10)''"
    by (simp_all add: Node_init_def example_apx_def example_type_def)
  show ?thesis
    using add_type_duplicate_or_fresh [of example_node "[example_type, example_type]" 1 example_apx] dup
      add_type_duplicate_or_fresh [of "Node_init None" "[example_type]" 0 example_apx "''C(0,10)''"] fresh
    by (auto simp: Node_init_def)
qed

section \<open>Properties of the import of ports\<close>

lemma updateDataType_many:
  assumes "find ws (portInterfaceRef port) = Some (WsObject n (SenderReceiverInterface dataElements))"
    and "length dataElements > 1"
  shows "updateDataType depth X ws port h self = ((h, self), Inl NotImplementedError)"
  using assms by (simp add: updateDataType_def)

text \<open>
  Claim C9. For a port whose sender-receiver interface has more than one data
  element, \<^verbatim>\<open>_updateDataType\<close> and with it \<^verbatim>\<open>add_autosar_port\<close> raise
  \<^verbatim>\<open>NotImplementedError\<close>; no type and no port is added.
\<close>

theorem multi_element_interface_raises:
  assumes "(case ws of None \<Rightarrow> rootWS port | Some w \<Rightarrow> Some w) = Some ws1"
    and "find ws1 (portInterfaceRef port) = Some (WsObject n (SenderReceiverInterface dataElements))"
    and "length dataElements > 1"
  shows "updateDataType depth X ws1 port h self = ((h, self), Inl NotImplementedError)
       \<and> add_autosar_port depth X port ws h self = ((h, self), Inl NotImplementedError)"
  using assms(1) updateDataType_many [OF assms(2,3)]
  by (simp add: add_autosar_port_def)

text \<open>
  The theorem at a port on the interface with two data elements.
\<close>

theorem multi_element_interface_raises_witness:
  "add_autosar_port 5 example_apx (example_port AR_RequirePort ''In'' ''/if/Two'') None []
      (Node_init None)
     = (([], Node_init None), Inl NotImplementedError)"
proof -
  have "(case None of None \<Rightarrow> rootWS (example_port AR_RequirePort ''In'' ''/if/Two'') | Some w \<Rightarrow> Some w)
      = Some example_ws"
    by (simp add: example_port_def)
  moreover have "find example_ws (portInterfaceRef (example_port AR_RequirePort ''In'' ''/if/Two''))
      = Some (WsObject ''Two'' (SenderReceiverInterface [''/dt/U8Range'', ''/dt/S32'']))"
    by (simp add: example_port_def example_ws_def)
  moreover have "length [''/dt/U8Range'', ''/dt/S32''] > 1" by simp
  ultimately show ?thesis
    using multi_element_interface_raises by blast
qed

lemma updateDataType_dropped:
  assumes "(\<forall>n dataElements. find ws (portInterfaceRef port)
               \<noteq> Some (WsObject n (SenderReceiverInterface dataElements)))
           \<or> (\<exists>n. find ws (portInterfaceRef port) = Some (WsObject n (SenderReceiverInterface [])))"
  shows "updateDataType depth X ws port h self = ((h, self), Inr None)"
proof (cases "find ws (portInterfaceRef port)")
  case None
  then show ?thesis by (simp add: updateDataType_def)
next
  case (Some obj)
  obtain n c where obj: "obj = WsObject n c" by (cases obj)
  show ?thesis
  proof (cases c)
    case (SenderReceiverInterface es)
    with assms Some obj have "es = []" by auto
    with Some obj SenderReceiverInterface show ?thesis by (simp add: updateDataType_def)
  qed (use Some obj in \<open>simp_all add: updateDataType_def\<close>)
qed

text \<open>
  Claim C10. For a port whose interface reference does not lead to a sender-receiver
  interface, or leads to one without data elements, \<^verbatim>\<open>add_autosar_port\<close> returns
  \<^verbatim>\<open>None\<close> without raising, and the store and the node are unchanged: the port is
  dropped.
\<close>

theorem port_without_data_element_dropped:
  assumes "(case ws of None \<Rightarrow> rootWS port | Some w \<Rightarrow> Some w) = Some ws1"
    and "(\<forall>n dataElements. find ws1 (portInterfaceRef port)
               \<noteq> Some (WsObject n (SenderReceiverInterface dataElements)))
           \<or> (\<exists>n. find ws1 (portInterfaceRef port) = Some (WsObject n (SenderReceiverInterface [])))"
  shows "add_autosar_port depth X port ws h self = ((h, self), Inr None)"
  using assms(1) updateDataType_dropped [OF assms(2)]
  by (simp add: add_autosar_port_def)

text \<open>
  The theorem at a port on the interface without data elements and at a port on an
  interface of another kind.
\<close>

theorem port_without_data_element_dropped_witness:
  "add_autosar_port 5 example_apx (example_port AR_RequirePort ''In'' ''/if/Zero'') None []
      (Node_init None) = (([], Node_init None), Inr None)
   \<and> add_autosar_port 5 example_apx (example_port AR_ProvidePort ''Out'' ''/if/Other'') None []
      (Node_init None) = (([], Node_init None), Inr None)"
proof -
  have ws: "(case None of None \<Rightarrow> rootWS (example_port c n i) | Some w \<Rightarrow> Some w) = Some example_ws"
    for c n i
    by (simp add: example_port_def)
  have zero: "\<exists>n. find example_ws (portInterfaceRef (example_port AR_RequirePort ''In'' ''/if/Zero''))
      = Some (WsObject n (SenderReceiverInterface []))"
    by (simp add: example_port_def example_ws_def)
  have other: "\<forall>n dataElements.
      find example_ws (portInterfaceRef (example_port AR_ProvidePort ''Out'' ''/if/Other''))
        \<noteq> Some (WsObject n (SenderReceiverInterface dataElements))"
    by (simp add: example_port_def example_ws_def)
  show ?thesis
    using port_without_data_element_dropped [OF ws, of AR_RequirePort "''In''" "''/if/Zero''"] zero
      port_without_data_element_dropped [OF ws, of AR_ProvidePort "''Out''" "''/if/Other''"] other
    by blast
qed

section \<open>Properties of the serialization\<close>

lemma append_lines_eq: "append_lines str xs ls = ls @ map str xs"
  by (induction xs arbitrary: ls) simp_all

text \<open>
  Claim C6. The lines of a node are the header line, then one line for each data
  type in the order of the type list, then one line for each provide port and then one
  for each require port, in the order of their lists; \<^verbatim>\<open>write\<close> prints the same lines
  in the same order.
\<close>

theorem lines_order:
  "lines h self =
     [header self]
     @ map (\<lambda>dataType. DataType_str (h ! dataType)) (dataTypes self)
     @ map Port_str (providePorts self)
     @ map Port_str (requirePorts self)
   \<and> Node_write h self fp = fp @ lines h self"
  by (simp add: lines_def Node_write_def Let_def append_lines_eq)

section \<open>Properties of the mirror\<close>

lemma deepcopy_refs_props:
  assumes "deepcopy_refs memo h rs = (memo1, h1, rs1)"
    and "\<forall>r \<in> set rs. r < n"
    and "n \<le> length h"
    and "\<forall>(r, r') \<in> set memo. r < n \<and> n \<le> r' \<and> r' < length h \<and> h ! r' = h ! r"
  shows "prefix h h1 \<and> length rs1 = length rs
     \<and> (\<forall>i < length rs. n \<le> rs1 ! i \<and> rs1 ! i < length h1 \<and> h1 ! (rs1 ! i) = h ! (rs ! i))"
  using assms
proof (induction rs arbitrary: memo h memo1 h1 rs1)
  case Nil
  then show ?case by simp
next
  case (Cons r rs)
  show ?case
  proof (cases "map_of memo r")
    case (Some r')
    obtain m2 h2 rs2 where rec: "deepcopy_refs memo h rs = (m2, h2, rs2)"
      by (metis prod_cases3)
    with Cons.prems(1) Some have eq: "h1 = h2" "rs1 = r' # rs2" by simp_all
    from Some have mem: "(r, r') \<in> set memo" by (rule map_of_SomeD)
    with Cons.prems(4) have r': "n \<le> r'" "r' < length h" "h ! r' = h ! r" by auto
    from Cons.IH [OF rec _ Cons.prems(3,4)] Cons.prems(2)
    have IH: "prefix h h2" "length rs2 = length rs"
      "\<forall>i < length rs. n \<le> rs2 ! i \<and> rs2 ! i < length h2 \<and> h2 ! (rs2 ! i) = h ! (rs ! i)"
      by simp_all
    from IH(1) obtain ext where h2: "h2 = h @ ext" by (auto simp: prefix_def)
    have "n \<le> (r' # rs2) ! i \<and> (r' # rs2) ! i < length h2 \<and> h2 ! ((r' # rs2) ! i) = h ! ((r # rs) ! i)"
      if "i < length (r # rs)" for i
    proof (cases i)
      case 0
      with r' h2 show ?thesis by (simp add: nth_append)
    next
      case (Suc j)
      with that IH(3) show ?thesis by simp
    qed
    with IH(1,2) eq show ?thesis by simp
  next
    case None
    let ?memo = "(r, length h) # memo" and ?h = "h @ [h ! r]"
    obtain m2 h2 rs2 where rec: "deepcopy_refs ?memo ?h rs = (m2, h2, rs2)"
      by (metis prod_cases3)
    with Cons.prems(1) None have eq: "h1 = h2" "rs1 = length h # rs2" by simp_all
    from Cons.prems(2,3) have r: "r < n" "r < length h" by auto
    have memo: "\<forall>(a, a') \<in> set ?memo. a < n \<and> n \<le> a' \<and> a' < length ?h \<and> ?h ! a' = ?h ! a"
      using Cons.prems(3,4) r by (auto simp: nth_append)
    from Cons.IH [OF rec _ _ memo] Cons.prems(2,3)
    have IH: "prefix ?h h2" "length rs2 = length rs"
      "\<forall>i < length rs. n \<le> rs2 ! i \<and> rs2 ! i < length h2 \<and> h2 ! (rs2 ! i) = ?h ! (rs ! i)"
      by simp_all
    from IH(1) obtain ext where h2: "h2 = h @ [h ! r] @ ext" by (auto simp: prefix_def)
    have "n \<le> (length h # rs2) ! i \<and> (length h # rs2) ! i < length h2
        \<and> h2 ! ((length h # rs2) ! i) = h ! ((r # rs) ! i)"
      if "i < length (r # rs)" for i
    proof (cases i)
      case 0
      with Cons.prems(3) h2 show ?thesis by (simp add: nth_append)
    next
      case (Suc j)
      with that have j: "j < length rs" by simp
      then have "rs ! j < length h" using Cons.prems(2,3) by (auto simp: all_set_conv_all_nth)
      with Suc j IH(3) show ?thesis by (simp add: nth_append)
    qed
    moreover have "prefix h h2" using h2 by simp
    ultimately show ?thesis using IH(2) eq by simp
  qed
qed

lemma deepcopy_props:
  assumes "deepcopy h rs = (h1, rs1)" and "\<forall>r \<in> set rs. r < length h"
  shows "prefix h h1 \<and> length rs1 = length rs
     \<and> (\<forall>i < length rs. length h \<le> rs1 ! i \<and> rs1 ! i < length h1 \<and> h1 ! (rs1 ! i) = h ! (rs ! i))"
proof -
  obtain memo where "deepcopy_refs [] h rs = (memo, h1, rs1)"
    using assms(1) by (auto simp: deepcopy_def split: prod.splits)
  from deepcopy_refs_props [OF this assms(2)] show ?thesis by simp
qed

lemma fold_upd_other:
  "k \<notin> f ` set xs \<Longrightarrow> fold (\<lambda>r m. m(f r \<mapsto> r)) xs m0 k = m0 k"
  by (induction xs arbitrary: m0) auto

lemma fold_upd_distinct:
  "distinct (map f xs) \<Longrightarrow> x \<in> set xs \<Longrightarrow> fold (\<lambda>r m. m(f r \<mapsto> r)) xs m0 (f x) = Some x"
proof (induction xs arbitrary: m0)
  case Nil
  then show ?case by simp
next
  case (Cons a xs)
  show ?case
  proof (cases "x \<in> set xs")
    case True
    with Cons show ?thesis by simp
  next
    case False
    with Cons.prems have xa: "x = a" and nin: "f a \<notin> f ` set xs" by auto
    have "fold (\<lambda>r m. m(f r \<mapsto> r)) (a # xs) m0 (f a)
        = fold (\<lambda>r m. m(f r \<mapsto> r)) xs (m0(f a \<mapsto> a)) (f a)"
      by (simp only: fold.simps comp_apply)
    also from nin have "\<dots> = (m0(f a \<mapsto> a)) (f a)"
      by (rule fold_upd_other)
    also have "\<dots> = Some a" by simp
    finally show ?thesis unfolding xa .
  qed
qed

lemma fold_upd_range:
  "fold (\<lambda>r m. m(f r \<mapsto> r)) xs m0 k = Some x \<Longrightarrow> (x \<in> set xs \<and> f x = k) \<or> m0 k = Some x"
proof (induction xs arbitrary: m0)
  case Nil
  then show ?case by simp
next
  case (Cons a xs)
  from Cons.IH [of "m0(f a \<mapsto> a)"] Cons.prems show ?case
    by (auto split: if_splits)
qed

lemma mirror_unfold:
  assumes "mirror nm h self = (h', m)"
  obtains types where "deepcopy h (dataTypes self) = (h', types)"
    and "dataTypes m = types"
    and "requirePorts m = map Port_mirror (providePorts self)"
    and "providePorts m = map Port_mirror (requirePorts self)"
    and "name m = (case nm of None \<Rightarrow> name self | Some n \<Rightarrow> Some n)"
    and "dataTypeMap m = fold (\<lambda>dataType m. m(dt_name (h' ! dataType) \<mapsto> dataType)) types Map.empty"
  using assms by (auto simp: mirror_def Let_def Node_init_def split: prod.splits)






text \<open>
  Claim C8. The data types of the mirror are new objects of the store with the
  contents of the source's data types; no object is in both type lists, and the objects
  of the source are as they were. The dictionary of the mirror holds copies only, each
  under its name, and when the names of the source's types are distinct it maps the
  name of every copy to that copy. Writing to an object of the mirror changes no object
  of the source, and writing to an object of the source changes no object of the
  mirror.
\<close>

theorem mirror_independent:
  assumes valid: "\<forall>r \<in> set (dataTypes self). r < length h"
    and mir: "mirror nm h self = (h', m)"
  shows "prefix h h'
     \<and> length (dataTypes m) = length (dataTypes self)
     \<and> (\<forall>i < length (dataTypes self).
          length h \<le> dataTypes m ! i \<and> dataTypes m ! i < length h'
          \<and> h' ! (dataTypes m ! i) = h ! (dataTypes self ! i))
     \<and> set (dataTypes m) \<inter> set (dataTypes self) = {}
     \<and> (distinct (map (\<lambda>r. dt_name (h ! r)) (dataTypes self)) \<longrightarrow>
          (\<forall>r' \<in> set (dataTypes m). dataTypeMap m (dt_name (h' ! r')) = Some r'))
     \<and> (\<forall>k r'. dataTypeMap m k = Some r' \<longrightarrow> r' \<in> set (dataTypes m) \<and> dt_name (h' ! r') = k)
     \<and> (\<forall>r' \<in> set (dataTypes m). \<forall>v.
          map ((!) (h'[r' := v])) (dataTypes self) = map ((!) h) (dataTypes self))
     \<and> (\<forall>r \<in> set (dataTypes self). \<forall>v.
          map ((!) (h'[r := v])) (dataTypes m) = map ((!) h') (dataTypes m))"
proof -
  let ?ts = "dataTypes self" and ?ms = "dataTypes m"
  from mir obtain types where m: "deepcopy h ?ts = (h', types)" "?ms = types"
    "dataTypeMap m = fold (\<lambda>dataType m. m(dt_name (h' ! dataType) \<mapsto> dataType)) types Map.empty"
    by (rule mirror_unfold)
  from deepcopy_props [OF m(1) valid] m(2)
  have pre: "prefix h h'" and len: "length ?ms = length ?ts"
    and cp: "\<And>i. i < length ?ts \<Longrightarrow>
        length h \<le> ?ms ! i \<and> ?ms ! i < length h' \<and> h' ! (?ms ! i) = h ! (?ts ! i)"
    by simp_all
  from pre obtain ext where h': "h' = h @ ext" by (auto simp: prefix_def)
  have new: "length h \<le> r'" if "r' \<in> set ?ms" for r'
    using that cp len by (auto simp: in_set_conv_nth)
  have old: "r < length h" if "r \<in> set ?ts" for r
    using that valid by simp
  have disj: "set ?ms \<inter> set ?ts = {}"
    using new old by fastforce
  have names: "map (\<lambda>r'. dt_name (h' ! r')) ?ms = map (\<lambda>r. dt_name (h ! r)) ?ts"
    using len cp by (intro nth_equalityI) simp_all
  have lookup: "dataTypeMap m (dt_name (h' ! r')) = Some r'"
    if "distinct (map (\<lambda>r. dt_name (h ! r)) ?ts)" "r' \<in> set ?ms" for r'
  proof -
    from that(1) names have "distinct (map (\<lambda>r'. dt_name (h' ! r')) ?ms)" by simp
    from fold_upd_distinct [OF this that(2), of Map.empty] m(2,3) show ?thesis by simp
  qed
  have range: "r' \<in> set ?ms \<and> dt_name (h' ! r') = k" if "dataTypeMap m k = Some r'" for k r'
    using fold_upd_range [of "\<lambda>r. dt_name (h' ! r)" types Map.empty k r'] that m(2,3) by simp
  have w1: "map ((!) (h'[r' := v])) ?ts = map ((!) h) ?ts" if "r' \<in> set ?ms" for r' v
  proof (rule map_cong [OF refl])
    fix r assume r: "r \<in> set ?ts"
    with old new [OF that] have "r \<noteq> r'" "r < length h" by fastforce+
    then show "h'[r' := v] ! r = h ! r" by (simp add: h' nth_append)
  qed
  have w2: "map ((!) (h'[r := v])) ?ms = map ((!) h') ?ms" if "r \<in> set ?ts" for r v
  proof (rule map_cong [OF refl])
    fix r' assume "r' \<in> set ?ms"
    with new old [OF that] have "r \<noteq> r'" by fastforce
    then show "h'[r := v] ! r' = h' ! r'" by simp
  qed
  show ?thesis
    using pre len cp disj lookup range w1 w2 by blast
qed

text \<open>
  The theorem at the example node: its one data type is the object 0, the copy is
  the object 1.
\<close>

theorem mirror_independent_witness:
  "dataTypes example_node = [0] \<and> length [example_type] = 1
   \<and> dataTypes (snd (mirror None [example_type] example_node)) = [1]
   \<and> set (dataTypes (snd (mirror None [example_type] example_node))) \<inter> set (dataTypes example_node) = {}
   \<and> dataTypeMap (snd (mirror None [example_type] example_node)) ''U8Range'' = Some 1
   \<and> fst (mirror None [example_type] example_node) = [example_type, example_type]"
proof -
  have valid: "\<forall>r \<in> set (dataTypes example_node). r < length [example_type]"
    by (simp add: example_node_def)
  have m: "mirror None [example_type] example_node
      = (fst (mirror None [example_type] example_node), snd (mirror None [example_type] example_node))"
    by simp
  have "set (dataTypes (snd (mirror None [example_type] example_node))) \<inter> set (dataTypes example_node) = {}"
    using mirror_independent [OF valid m] by blast
  moreover have "dataTypes (snd (mirror None [example_type] example_node)) = [1]"
    by code_simp
  moreover have "dataTypeMap (snd (mirror None [example_type] example_node)) ''U8Range'' = Some 1"
    by code_simp
  moreover have "fst (mirror None [example_type] example_node) = [example_type, example_type]"
    by code_simp
  ultimately show ?thesis by (simp add: example_node_def)
qed


end
